theory Spec2Isabelle
  imports Complex_Main
begin

section \<open>Data model (app.py, lines 46-91)\<close>

text \<open>
  The three mapped classes are records, one per table row. The primary key attribute
  \<^verbatim>\<open>id\<close> of each class is named \<open>uid\<close>, \<open>pid\<close> and \<open>oid\<close> here, since a record field
  cannot be called \<open>id\<close>. A \<^verbatim>\<open>Date\<close> is a (year, month, day) triple. A float is the
  real number it denotes; the two roundings that produce the stored \<^verbatim>\<open>Float\<close> price are
  not the source's and are parameters of the model (see \<open>product_schema_load\<close> and
  \<open>insert_product\<close>).
\<close>

type_synonym date = "nat \<times> nat \<times> nat"

record user =
  uid :: int
  name :: string
  address :: string
  email :: string

record product =
  pid :: int
  product_name :: string
  price :: real

record order =
  oid :: int
  order_date :: date
  user_id :: int

text \<open>
  The database: the rows of the three tables in insertion order, the rows of the
  association table \<^verbatim>\<open>order_product\<close> as (order_id, product_id) pairs, and the three
  auto-increment counters. The tables are lists, so that a duplicated row would be
  visible if the code could produce one.
\<close>

record store =
  users :: "user list"
  products :: "product list"
  orders :: "order list"
  order_product :: "(int \<times> int) list"
  next_user_id :: int
  next_product_id :: int
  next_order_id :: int

definition empty_store :: store where
  "empty_store = \<lparr>users = [], products = [], orders = [], order_product = [],
     next_user_id = 1, next_product_id = 1, next_order_id = 1\<rparr>"

section \<open>Requests and responses\<close>

text \<open>
  An exception that leaves a handler. Flask turns it into a 500 response; the session
  is discarded with the request, so nothing of the failed transaction is stored.
  \<open>AttributeError\<close> is Python's error for an attribute read on \<^verbatim>\<open>None\<close>;
  \<open>IntegrityError\<close> is what \<^verbatim>\<open>db.session.commit()\<close> raises when the database rejects
  a statement that violates a constraint of the schema.
\<close>

datatype exn = AttributeError | IntegrityError

text \<open>
  The fixed texts of the \<^verbatim>\<open>{"message": ...}\<close> and \<^verbatim>\<open>{"error": ...}\<close> bodies, with the
  value an f-string interpolates as the constructor's argument.
\<close>

datatype message =
    InvalidUserId                \<comment> \<open>"Invalid user id"\<close>
  | UserNotFound                 \<comment> \<open>"User not found"\<close>
  | DeletedUser int              \<comment> \<open>"successfully deleted user {id}"\<close>
  | InvalidProductId             \<comment> \<open>"Invalid product id"\<close>
  | ProductNotFound              \<comment> \<open>"Product not found"\<close>
  | DeletedProduct int           \<comment> \<open>"successfully deleted product {id}"\<close>
  | OrderOrProductNotFound       \<comment> \<open>"Order or Product not found"\<close>
  | ProductAlreadyInOrder        \<comment> \<open>"Product already in order"\<close>
  | AddedToOrder string          \<comment> \<open>"Successfully added {product.product_name} to order!"\<close>
  | ProductNotFoundInOrder       \<comment> \<open>"Product not found in order"\<close>
  | Deleted product              \<comment> \<open>"successfully deleted {product}"\<close>
  | OrderNotFound                \<comment> \<open>"Order not found"\<close>

text \<open>
  A response body. \<open>UserJson None\<close> and \<open>ProductJson None\<close> are what the schema dumps
  for \<^verbatim>\<open>None\<close>. \<open>ValidationMessages\<close> carries the keys of \<^verbatim>\<open>e.messages\<close>.
\<close>

datatype json =
    UserJson "user option"
  | UsersJson "user list"
  | ProductJson "product option"
  | ProductsJson "product list"
  | OrderJson order
  | OrdersJson "order list"
  | ValidationMessages "string list"
  | Message message
  | Error message

text \<open>A handler returns the pair (body, status), as the source writes it.\<close>

type_synonym response = "json \<times> nat"

text \<open>
  The result of a request: the exception that escaped, or the response together with the
  database after the request.
\<close>

type_synonym result = "exn + (response \<times> store)"

subsection \<open>Request bodies and schema loading\<close>

text \<open>
  What \<^verbatim>\<open>request.json\<close> holds under one key of a schema, as the schema's field sees it:
  the key is absent, its value is rejected by the field (wrong type, too long, not a
  date), or it deserialises to a value.
\<close>

datatype 'a field = Missing | Invalid | Value 'a

record user_body =
  ub_id :: "int field"
  ub_name :: "string field"
  ub_address :: "string field"
  ub_email :: "string field"
  ub_unknown :: "string list"   \<comment> \<open>keys of the body that the schema does not have\<close>

record product_body =
  pb_id :: "int field"
  pb_product_name :: "string field"
  pb_price :: "real field"      \<comment> \<open>the number as the body writes it\<close>
  pb_unknown :: "string list"

record order_body =
  ob_id :: "int field"
  ob_order_date :: "date field"
  ob_user_id :: "int field"
  ob_unknown :: "string list"

text \<open>
  The keys a field contributes to the messages of a \<^verbatim>\<open>ValidationError\<close>. The auto schema
  makes a column required when it is not nullable and has no default; the
  auto-incremented primary keys are optional.
\<close>

fun field_errors :: "bool \<Rightarrow> string \<Rightarrow> 'a field \<Rightarrow> string list" where
  "field_errors required k Missing = (if required then [k] else [])"
| "field_errors required k Invalid = [k]"
| "field_errors required k (Value v) = []"

definition user_errors :: "user_body \<Rightarrow> string list" where
  "user_errors b =
     field_errors False ''id'' (ub_id b) @ field_errors True ''name'' (ub_name b) @
     field_errors True ''address'' (ub_address b) @ field_errors True ''email'' (ub_email b) @
     ub_unknown b"

definition product_errors :: "product_body \<Rightarrow> string list" where
  "product_errors b =
     field_errors False ''id'' (pb_id b) @
     field_errors True ''product_name'' (pb_product_name b) @
     field_errors True ''price'' (pb_price b) @ pb_unknown b"

definition order_errors :: "order_body \<Rightarrow> string list" where
  "order_errors b =
     field_errors False ''id'' (ob_id b) @
     field_errors True ''order_date'' (ob_order_date b) @
     field_errors True ''user_id'' (ob_user_id b) @ ob_unknown b"

text \<open>
  \<^verbatim>\<open>schema.load(request.json)\<close>: the messages of the \<^verbatim>\<open>ValidationError\<close>, or the values
  the handler reads from the loaded dictionary.
\<close>

definition user_schema_load :: "user_body \<Rightarrow> string list + (string \<times> string \<times> string)" where
  "user_schema_load b =
     (case (ub_name b, ub_address b, ub_email b) of
        (Value n, Value a, Value e) \<Rightarrow>
          if user_errors b = [] then Inr (n, a, e) else Inl (user_errors b)
      | _ \<Rightarrow> Inl (user_errors b))"

text \<open>
  The schema's \<^verbatim>\<open>Float\<close> field hands the handler \<^verbatim>\<open>float(value)\<close>, the float nearest to
  the number of the body, not the number itself. That rounding is Python's: it is the
  parameter \<open>to_float\<close>.
\<close>

definition product_schema_load ::
  "(real \<Rightarrow> real) \<Rightarrow> product_body \<Rightarrow> string list + (string \<times> real)" where
  "product_schema_load to_float b =
     (case (pb_product_name b, pb_price b) of
        (Value n, Value pr) \<Rightarrow>
          if product_errors b = [] then Inr (n, to_float pr) else Inl (product_errors b)
      | _ \<Rightarrow> Inl (product_errors b))"

definition order_schema_load :: "order_body \<Rightarrow> string list + (int \<times> date)" where
  "order_schema_load b =
     (case (ob_user_id b, ob_order_date b) of
        (Value u, Value d) \<Rightarrow>
          if order_errors b = [] then Inr (u, d) else Inl (order_errors b)
      | _ \<Rightarrow> Inl (order_errors b))"

section \<open>The session: lookups, the relationship, and the statements of a commit\<close>

text \<open>\<^verbatim>\<open>db.session.get(Model, id)\<close>: the row with that primary key, or \<^verbatim>\<open>None\<close>.\<close>

definition session_get_user :: "store \<Rightarrow> int \<Rightarrow> user option" where
  "session_get_user s i = find (\<lambda>u. uid u = i) (users s)"

definition session_get_product :: "store \<Rightarrow> int \<Rightarrow> product option" where
  "session_get_product s i = find (\<lambda>p. pid p = i) (products s)"

definition session_get_order :: "store \<Rightarrow> int \<Rightarrow> order option" where
  "session_get_order s i = find (\<lambda>od. oid od = i) (orders s)"

text \<open>
  \<^verbatim>\<open>order.product\<close> (lines 89-91): the products joined to the order through the
  association table.
\<close>

definition order_dot_product :: "store \<Rightarrow> order \<Rightarrow> product list" where
  "order_dot_product s od =
     [p. (a, b) \<leftarrow> order_product s, a = oid od, p \<leftarrow> products s, pid p = b]"

text \<open>
  The statements a commit sends, under the constraints the schema declares.

  \<^item> \<^verbatim>\<open>user.email\<close> is \<^verbatim>\<open>unique=True\<close> (line 61). Which emails the unique index takes
    for equal is decided by the column's collation, which the source leaves to the
    database: it is the parameter \<open>coll\<close>.
  \<^item> \<^verbatim>\<open>order.user_id\<close> is a \<^verbatim>\<open>ForeignKey("user.id")\<close> of type \<^verbatim>\<open>Mapped[int]\<close>, hence
    not nullable (line 83): an order row for a user that does not exist is rejected.
  \<^item> The columns of \<^verbatim>\<open>order_product\<close> are foreign keys and together the primary key
    (lines 47-52).
\<close>

definition insert_user ::
  "(string \<Rightarrow> string \<Rightarrow> bool) \<Rightarrow> store \<Rightarrow> string \<Rightarrow> string \<Rightarrow> string \<Rightarrow> exn + (user \<times> store)" where
  "insert_user coll s n a e =
     (let new_user = \<lparr>uid = next_user_id s, name = n, address = a, email = e\<rparr>
      in if list_ex (\<lambda>v. coll (email v) e) (users s) then Inl IntegrityError
         else Inr (new_user,
           s\<lparr>users := users s @ [new_user], next_user_id := next_user_id s + 1\<rparr>))"

text \<open>
  The UPDATE a commit sends for the two attributes \<^verbatim>\<open>update_user\<close> assigns:
  \<^verbatim>\<open>UPDATE user SET name = n, email = e WHERE id = i\<close>. The row's own old email does
  not count against the unique index.
\<close>

definition update_user_row ::
  "(string \<Rightarrow> string \<Rightarrow> bool) \<Rightarrow> store \<Rightarrow> int \<Rightarrow> string \<Rightarrow> string \<Rightarrow> exn + store" where
  "update_user_row coll s i n e =
     (if list_ex (\<lambda>v. uid v \<noteq> i \<and> coll (email v) e) (users s)
      then Inl IntegrityError
      else Inr (s\<lparr>users := map (\<lambda>v. if uid v = i then v\<lparr>name := n, email := e\<rparr> else v) (users s)\<rparr>))"

text \<open>
  \<^verbatim>\<open>db.session.delete(user)\<close>: the relationship \<^verbatim>\<open>User.order\<close> has no delete cascade,
  so the unit of work first sets \<^verbatim>\<open>user_id\<close> of the user's orders to NULL, which the
  column does not admit (and the foreign key forbids deleting a referenced user): with
  any order of that user, the commit raises.
\<close>

definition delete_user_row :: "store \<Rightarrow> user \<Rightarrow> exn + store" where
  "delete_user_row s u =
     (if list_ex (\<lambda>od. user_id od = uid u) (orders s) then Inl IntegrityError
      else Inr (s\<lparr>users := filter (\<lambda>v. uid v \<noteq> uid u) (users s)\<rparr>))"

text \<open>
  \<^verbatim>\<open>product.price\<close> is a \<^verbatim>\<open>Float\<close> column (line 71): the database stores the float it
  is given at the precision of the column. That rounding is the database's: it is the
  parameter \<open>to_column\<close>. After the commit the session reads the row back, so the
  product the handler serialises carries the stored price.
\<close>

definition insert_product ::
  "(real \<Rightarrow> real) \<Rightarrow> store \<Rightarrow> string \<Rightarrow> real \<Rightarrow> product \<times> store" where
  "insert_product to_column s n pr =
     (let new_product =
        \<lparr>pid = next_product_id s, product_name = n, price = to_column pr\<rparr>
      in (new_product,
          s\<lparr>products := products s @ [new_product],
            next_product_id := next_product_id s + 1\<rparr>))"

text \<open>\<^verbatim>\<open>UPDATE product SET product_name = n, price = pr WHERE id = i\<close>.\<close>

definition update_product_row ::
  "(real \<Rightarrow> real) \<Rightarrow> store \<Rightarrow> int \<Rightarrow> string \<Rightarrow> real \<Rightarrow> store" where
  "update_product_row to_column s i n pr =
     s\<lparr>products :=
         map (\<lambda>q. if pid q = i then q\<lparr>product_name := n, price := to_column pr\<rparr> else q)
           (products s)\<rparr>"

text \<open>
  \<^verbatim>\<open>db.session.delete(product)\<close>: for a relationship with \<^verbatim>\<open>secondary=\<close>
  (\<^verbatim>\<open>Product.order\<close>, lines 74-76) the unit of work deletes the product's rows of the
  association table, then the product row.
\<close>

definition delete_product_row :: "store \<Rightarrow> product \<Rightarrow> store" where
  "delete_product_row s p =
     s\<lparr>order_product := filter (\<lambda>(a, b). b \<noteq> pid p) (order_product s),
       products := filter (\<lambda>q. pid q \<noteq> pid p) (products s)\<rparr>"

definition insert_order :: "store \<Rightarrow> int \<Rightarrow> date \<Rightarrow> exn + (order \<times> store)" where
  "insert_order s u d =
     (let new_order = \<lparr>oid = next_order_id s, order_date = d, user_id = u\<rparr>
      in if list_ex (\<lambda>v. uid v = u) (users s)
         then Inr (new_order,
           s\<lparr>orders := orders s @ [new_order], next_order_id := next_order_id s + 1\<rparr>)
         else Inl IntegrityError)"

definition insert_order_product :: "store \<Rightarrow> int \<Rightarrow> int \<Rightarrow> exn + store" where
  "insert_order_product s a b =
     (if (a, b) \<in> set (order_product s) then Inl IntegrityError
      else if list_ex (\<lambda>od. oid od = a) (orders s) \<and> list_ex (\<lambda>p. pid p = b) (products s)
      then Inr (s\<lparr>order_product := order_product s @ [(a, b)]\<rparr>)
      else Inl IntegrityError)"

section \<open>The route handlers (app.py, lines 120-323)\<close>

subsection \<open>Users\<close>

definition get_users :: "store \<Rightarrow> result" where
  "get_users s = Inr ((UsersJson (users s), 200), s)"

definition get_user :: "store \<Rightarrow> int \<Rightarrow> result" where
  "get_user s i = (let user = session_get_user s i in Inr ((UserJson user, 200), s))"

definition create_user :: "(string \<Rightarrow> string \<Rightarrow> bool) \<Rightarrow> store \<Rightarrow> user_body \<Rightarrow> result" where
  "create_user coll s b =
     (case user_schema_load b of
        Inl messages \<Rightarrow> Inr ((ValidationMessages messages, 400), s)
      | Inr (n, a, e) \<Rightarrow>
          (case insert_user coll s n a e of
             Inl x \<Rightarrow> Inl x
           | Inr (new_user, s') \<Rightarrow> Inr ((UserJson (Some new_user), 201), s')))"

definition update_user ::
  "(string \<Rightarrow> string \<Rightarrow> bool) \<Rightarrow> store \<Rightarrow> int \<Rightarrow> user_body \<Rightarrow> result" where
  "update_user coll s i b =
     (case session_get_user s i of
        None \<Rightarrow> Inr ((Message InvalidUserId, 404), s)
      | Some u \<Rightarrow>
          (case user_schema_load b of
             Inl messages \<Rightarrow> Inr ((ValidationMessages messages, 400), s)
           | Inr (n, a, e) \<Rightarrow>
               (case update_user_row coll s (uid u) n e of
                  Inl x \<Rightarrow> Inl x
                | Inr s' \<Rightarrow> Inr ((UserJson (Some (u\<lparr>name := n, email := e\<rparr>)), 200), s'))))"

definition delete_user :: "store \<Rightarrow> int \<Rightarrow> result" where
  "delete_user s i =
     (case session_get_user s i of
        None \<Rightarrow> Inr ((Error UserNotFound, 404), s)
      | Some u \<Rightarrow>
          (case delete_user_row s u of
             Inl x \<Rightarrow> Inl x
           | Inr s' \<Rightarrow> Inr ((Message (DeletedUser i), 200), s')))"

subsection \<open>Products\<close>

definition get_products :: "store \<Rightarrow> result" where
  "get_products s = Inr ((ProductsJson (products s), 200), s)"

definition get_product :: "store \<Rightarrow> int \<Rightarrow> result" where
  "get_product s i =
     (let product = session_get_product s i in Inr ((ProductJson product, 200), s))"

definition create_product ::
  "(real \<Rightarrow> real) \<Rightarrow> (real \<Rightarrow> real) \<Rightarrow> store \<Rightarrow> product_body \<Rightarrow> result" where
  "create_product to_float to_column s b =
     (case product_schema_load to_float b of
        Inl messages \<Rightarrow> Inr ((ValidationMessages messages, 400), s)
      | Inr (n, pr) \<Rightarrow>
          (case insert_product to_column s n pr of
             (new_product, s') \<Rightarrow> Inr ((ProductJson (Some new_product), 201), s')))"

definition update_product ::
  "(real \<Rightarrow> real) \<Rightarrow> (real \<Rightarrow> real) \<Rightarrow> store \<Rightarrow> int \<Rightarrow> product_body \<Rightarrow> result" where
  "update_product to_float to_column s i b =
     (case session_get_product s i of
        None \<Rightarrow> Inr ((Message InvalidProductId, 404), s)
      | Some p \<Rightarrow>
          (case product_schema_load to_float b of
             Inl messages \<Rightarrow> Inr ((ValidationMessages messages, 400), s)
           | Inr (n, pr) \<Rightarrow>
               Inr ((ProductJson (Some (p\<lparr>product_name := n, price := to_column pr\<rparr>)), 200),
                    update_product_row to_column s (pid p) n pr)))"

definition delete_product :: "store \<Rightarrow> int \<Rightarrow> result" where
  "delete_product s i =
     (case session_get_product s i of
        None \<Rightarrow> Inr ((Error ProductNotFound, 404), s)
      | Some p \<Rightarrow> Inr ((Message (DeletedProduct i), 200), delete_product_row s p))"

subsection \<open>Orders\<close>

definition new_order :: "store \<Rightarrow> order_body \<Rightarrow> result" where
  "new_order s b =
     (case order_schema_load b of
        Inl messages \<Rightarrow> Inr ((ValidationMessages messages, 400), s)
      | Inr (u, d) \<Rightarrow>
          (case insert_order s u d of
             Inl x \<Rightarrow> Inl x
           | Inr (new_order, s') \<Rightarrow> Inr ((OrderJson new_order, 201), s')))"

definition add_product :: "store \<Rightarrow> int \<Rightarrow> int \<Rightarrow> result" where
  "add_product s order_id product_id =
     (case (session_get_order s order_id, session_get_product s product_id) of
        (Some od, Some p) \<Rightarrow>
          if p \<in> set (order_dot_product s od)
          then Inr ((Message ProductAlreadyInOrder, 400), s)
          else (case insert_order_product s (oid od) (pid p) of
                  Inl x \<Rightarrow> Inl x
                | Inr s' \<Rightarrow> Inr ((Message (AddedToOrder (product_name p)), 200), s'))
      | _ \<Rightarrow> Inr ((Error OrderOrProductNotFound, 404), s))"

text \<open>
  \<^verbatim>\<open>remove_product\<close> reads \<^verbatim>\<open>order.product\<close> without testing \<^verbatim>\<open>order\<close>: for
  \<^verbatim>\<open>None\<close> the attribute read raises. \<^verbatim>\<open>None not in order.product\<close> is true, so a
  product that does not exist gives the 404. Otherwise the handler calls
  \<^verbatim>\<open>db.session.delete(product)\<close>.
\<close>

definition remove_product :: "store \<Rightarrow> int \<Rightarrow> int \<Rightarrow> result" where
  "remove_product s order_id product_id =
     (case session_get_order s order_id of
        None \<Rightarrow> Inl AttributeError
      | Some od \<Rightarrow>
          (case session_get_product s product_id of
             None \<Rightarrow> Inr ((Error ProductNotFoundInOrder, 404), s)
           | Some p \<Rightarrow>
               if p \<notin> set (order_dot_product s od)
               then Inr ((Error ProductNotFoundInOrder, 404), s)
               else Inr ((Message (Deleted p), 200), delete_product_row s p)))"

definition get_user_orders :: "store \<Rightarrow> int \<Rightarrow> result" where
  "get_user_orders s u =
     (let orders' = filter (\<lambda>od. user_id od = u) (orders s)
      in Inr ((OrdersJson orders', 200), s))"

definition get_order_products :: "store \<Rightarrow> int \<Rightarrow> result" where
  "get_order_products s order_id =
     (case session_get_order s order_id of
        None \<Rightarrow> Inr ((Error OrderNotFound, 404), s)
      | Some od \<Rightarrow> Inr ((ProductsJson (order_dot_product s od), 200), s))"

subsection \<open>The routes\<close>

datatype request =
    GET_users
  | GET_user int
  | POST_users user_body
  | PUT_user int user_body
  | DELETE_user int
  | GET_products
  | GET_product int
  | POST_products product_body
  | PUT_product int product_body
  | DELETE_product int
  | POST_orders order_body
  | PUT_add_product int int
  | DELETE_remove_product int int
  | GET_user_orders int
  | GET_order_products int

fun handle ::
  "(string \<Rightarrow> string \<Rightarrow> bool) \<Rightarrow> (real \<Rightarrow> real) \<Rightarrow> (real \<Rightarrow> real) \<Rightarrow>
   store \<Rightarrow> request \<Rightarrow> result" where
  "handle coll to_float to_column s GET_users = get_users s"
| "handle coll to_float to_column s (GET_user i) = get_user s i"
| "handle coll to_float to_column s (POST_users b) = create_user coll s b"
| "handle coll to_float to_column s (PUT_user i b) = update_user coll s i b"
| "handle coll to_float to_column s (DELETE_user i) = delete_user s i"
| "handle coll to_float to_column s GET_products = get_products s"
| "handle coll to_float to_column s (GET_product i) = get_product s i"
| "handle coll to_float to_column s (POST_products b) = create_product to_float to_column s b"
| "handle coll to_float to_column s (PUT_product i b) = update_product to_float to_column s i b"
| "handle coll to_float to_column s (DELETE_product i) = delete_product s i"
| "handle coll to_float to_column s (POST_orders b) = new_order s b"
| "handle coll to_float to_column s (PUT_add_product i j) = add_product s i j"
| "handle coll to_float to_column s (DELETE_remove_product i j) = remove_product s i j"
| "handle coll to_float to_column s (GET_user_orders i) = get_user_orders s i"
| "handle coll to_float to_column s (GET_order_products i) = get_order_products s i"

text \<open>
  The database after a request: the handler's when it returns, the old one when an
  exception escapes (the transaction is not committed).
\<close>

definition after ::
  "(string \<Rightarrow> string \<Rightarrow> bool) \<Rightarrow> (real \<Rightarrow> real) \<Rightarrow> (real \<Rightarrow> real) \<Rightarrow>
   store \<Rightarrow> request \<Rightarrow> store" where
  "after coll to_float to_column s r =
     (case handle coll to_float to_column s r of Inl x \<Rightarrow> s | Inr (resp, s') \<Rightarrow> s')"

definition run ::
  "(string \<Rightarrow> string \<Rightarrow> bool) \<Rightarrow> (real \<Rightarrow> real) \<Rightarrow> (real \<Rightarrow> real) \<Rightarrow>
   request list \<Rightarrow> store" where
  "run coll to_float to_column rs = foldl (after coll to_float to_column) empty_store rs"

section \<open>Referential integrity\<close>

text \<open>
  Every order row names a user row; every association row names an order row and a
  product row; no association row occurs twice.
\<close>

definition store_invariant :: "store \<Rightarrow> bool" where
  "store_invariant s \<longleftrightarrow>
     (\<forall>od \<in> set (orders s). \<exists>u \<in> set (users s). uid u = user_id od) \<and>
     (\<forall>(a, b) \<in> set (order_product s).
        (\<exists>od \<in> set (orders s). oid od = a) \<and> (\<exists>p \<in> set (products s). pid p = b)) \<and>
     distinct (order_product s)"

section \<open>Sample data\<close>

definition ann :: user where
  "ann = \<lparr>uid = 1, name = ''ann'', address = ''1 elm st'', email = ''ann@example.org''\<rparr>"

definition bob :: user where
  "bob = \<lparr>uid = 2, name = ''bob'', address = ''2 oak st'', email = ''bob@example.org''\<rparr>"

definition pen :: product where
  "pen = \<lparr>pid = 1, product_name = ''pen'', price = 2\<rparr>"

definition monday :: order where
  "monday = \<lparr>oid = 1, order_date = (2024, 1, 1), user_id = 1\<rparr>"

definition tuesday :: order where
  "tuesday = \<lparr>oid = 2, order_date = (2024, 1, 2), user_id = 1\<rparr>"

text \<open>Two users and nothing else.\<close>

definition two_users :: store where
  "two_users = empty_store\<lparr>users := [ann, bob], next_user_id := 3\<rparr>"

text \<open>One user with two orders, one product, and the product in the second order only.\<close>

definition shop :: store where
  "shop = \<lparr>users = [ann], products = [pen], orders = [monday, tuesday],
     order_product = [(2, 1)],
     next_user_id = 2, next_product_id = 2, next_order_id = 3\<rparr>"

text \<open>
  The prices of the examples (2, 3 and -1) are floats of every binary format, so both
  roundings of a price leave them as they are: on the examples the roundings are
  \<open>exact\<close>.
\<close>

definition exact :: "real \<Rightarrow> real" where
  "exact x = x"

text \<open>Request bodies with every required key present and well-formed.\<close>

definition user_form :: "string \<Rightarrow> string \<Rightarrow> string \<Rightarrow> user_body" where
  "user_form n a e =
     \<lparr>ub_id = Missing, ub_name = Value n, ub_address = Value a, ub_email = Value e,
      ub_unknown = []\<rparr>"

definition product_form :: "string \<Rightarrow> real \<Rightarrow> product_body" where
  "product_form n pr =
     \<lparr>pb_id = Missing, pb_product_name = Value n, pb_price = Value pr, pb_unknown = []\<rparr>"

definition order_form :: "int \<Rightarrow> date \<Rightarrow> order_body" where
  "order_form u d =
     \<lparr>ob_id = Missing, ob_order_date = Value d, ob_user_id = Value u, ob_unknown = []\<rparr>"

text \<open>
  A session of requests: a user, a product and an order are created, the product is added
  to the order twice, the user's deletion is attempted, and an order for a user that
  does not exist is posted.
\<close>

definition session :: "request list" where
  "session =
     [POST_users (user_form ''ann'' ''1 elm st'' ''ann@example.org''),
      POST_products (product_form ''pen'' 2),
      POST_orders (order_form 1 (2024, 1, 1)),
      PUT_add_product 1 1,
      PUT_add_product 1 1,
      DELETE_user 1,
      POST_orders (order_form 9 (2024, 1, 2))]"

section \<open>Lookups and the relationship\<close>

lemma find_SomeD: "find P xs = Some x \<Longrightarrow> x \<in> set xs \<and> P x"
  by (induction xs) (auto split: if_splits)

lemma session_get_user_SomeD:
  "session_get_user s i = Some u \<Longrightarrow> u \<in> set (users s) \<and> uid u = i"
  unfolding session_get_user_def by (drule find_SomeD) simp

lemma session_get_product_SomeD:
  "session_get_product s i = Some p \<Longrightarrow> p \<in> set (products s) \<and> pid p = i"
  unfolding session_get_product_def by (drule find_SomeD) simp


lemma session_get_order_frame [simp]:
  "session_get_order (s\<lparr>order_product := x\<rparr>) i = session_get_order s i"
  by (simp add: session_get_order_def)

lemma session_get_product_frame [simp]:
  "session_get_product (s\<lparr>order_product := x\<rparr>) i = session_get_product s i"
  by (simp add: session_get_product_def)


lemma user_form_load [simp]: "user_schema_load (user_form n a e) = Inr (n, a, e)"
  by (simp add: user_schema_load_def user_form_def user_errors_def)

lemma product_form_load [simp]:
  "product_schema_load to_float (product_form n pr) = Inr (n, to_float pr)"
  by (simp add: product_schema_load_def product_form_def product_errors_def)

lemma product_form_price [simp]: "pb_price (product_form n pr) = Value pr"
  by (simp add: product_form_def)

lemma order_form_load [simp]: "order_schema_load (order_form u d) = Inr (u, d)"
  by (simp add: order_schema_load_def order_form_def order_errors_def)

section \<open>Removing a product from an order\<close>

text \<open>
  Claim C1 says that removing a product from an order deletes only the association row,
  so that the product stays in the store and in its other orders. The handler deletes
  the product itself: in a store where the pen is in both orders, removing it from the
  first order leaves no product row and no association row, and the pen can no longer
  be fetched.
\<close>

theorem remove_product_deletes_product:
  "remove_product (shop\<lparr>order_product := [(2, 1), (1, 1)]\<rparr>) 1 1 =
     Inr ((Message (Deleted pen), 200), shop\<lparr>order_product := [], products := []\<rparr>) \<and>
   session_get_product (shop\<lparr>order_product := [], products := []\<rparr>) 1 = None"
  by (simp add: remove_product_def session_get_order_def session_get_product_def
      order_dot_product_def delete_product_row_def shop_def pen_def monday_def tuesday_def)

text \<open>
  Claim C5 says that removing a product is total and answers NotFound also when the order
  does not exist. For an order id without a row the handler reads the product list of
  \<^verbatim>\<open>None\<close> and the AttributeError escapes.
\<close>

theorem remove_product_missing_order:
  "remove_product empty_store 1 1 = Inl AttributeError"
  by (simp add: remove_product_def session_get_order_def empty_store_def)

section \<open>Fetching by id\<close>

text \<open>
  Claim C4 says that fetching a user, a product or an order's products by an id without
  a row answers not-found. \<^verbatim>\<open>get_order_products\<close> does; \<^verbatim>\<open>get_user\<close> and
  \<^verbatim>\<open>get_product\<close> dump the \<^verbatim>\<open>None\<close> they looked up and answer 200.
\<close>

theorem get_by_missing_id:
  "get_user empty_store 1 = Inr ((UserJson None, 200), empty_store) \<and>
   get_product empty_store 1 = Inr ((ProductJson None, 200), empty_store) \<and>
   get_order_products empty_store 1 = Inr ((Error OrderNotFound, 404), empty_store)"
  by (simp add: get_user_def get_product_def get_order_products_def session_get_user_def
      session_get_product_def session_get_order_def empty_store_def)

section \<open>Creating an order\<close>

text \<open>
  Claim C6 says that a well-formed order for a user that does not exist fails with
  NotFound. The handler has no such test: the body loads, the insert is rejected by the
  foreign key of \<^verbatim>\<open>order.user_id\<close>, and the IntegrityError escapes.
\<close>

theorem new_order_missing_user:
  "order_schema_load (order_form 7 (2024, 1, 1)) = Inr (7, (2024, 1, 1)) \<and>
   session_get_user empty_store 7 = None \<and>
   new_order empty_store (order_form 7 (2024, 1, 1)) = Inl IntegrityError"
  by (simp add: new_order_def insert_order_def session_get_user_def empty_store_def)

section \<open>Listing the orders of a user\<close>

text \<open>
  Claim C7: for every store and every user id, the listing holds exactly the order rows
  whose \<^verbatim>\<open>user_id\<close> is the given one, and the store is as before.
\<close>

theorem get_user_orders_exact:
  "\<exists>os. get_user_orders s u = Inr ((OrdersJson os, 200), s) \<and>
     set os = {od \<in> set (orders s). user_id od = u}"
  by (simp add: get_user_orders_def)

text \<open>
  Claim C10: the listing never fails. For every store and every user id the handler
  answers 200 with the order rows of that user, in table order, and no exception
  escapes; for an id without a user row, in a store whose orders all refer to users, the
  answer is 200 with the empty list, not a 404.
\<close>

theorem get_user_orders_total:
  "get_user_orders s u =
     Inr ((OrdersJson (filter (\<lambda>od. user_id od = u) (orders s)), 200), s) \<and>
   (\<forall>x. get_user_orders s u \<noteq> Inl x) \<and>
   (session_get_user s u = None \<longrightarrow> store_invariant s \<longrightarrow>
      get_user_orders s u = Inr ((OrdersJson [], 200), s))"
proof (intro conjI impI)
  show eq: "get_user_orders s u =
      Inr ((OrdersJson (filter (\<lambda>od. user_id od = u) (orders s)), 200), s)"
    by (simp add: get_user_orders_def)
  then show "\<forall>x. get_user_orders s u \<noteq> Inl x"
    by simp
  assume none: "session_get_user s u = None" and inv: "store_invariant s"
  from none have no_user: "\<forall>v \<in> set (users s). uid v \<noteq> u"
    by (auto simp: session_get_user_def find_None_iff)
  have "user_id od \<noteq> u" if "od \<in> set (orders s)" for od
  proof -
    from that inv obtain v where "v \<in> set (users s)" "uid v = user_id od"
      unfolding store_invariant_def by blast
    with no_user show ?thesis by auto
  qed
  then have "filter (\<lambda>od. user_id od = u) (orders s) = []"
    by (simp add: filter_empty_conv)
  with eq show "get_user_orders s u = Inr ((OrdersJson [], 200), s)"
    by simp
qed

theorem get_user_orders_total_witness:
  "get_user_orders shop 9 = Inr ((OrdersJson [], 200), shop) \<and>
   get_user_orders shop 1 = Inr ((OrdersJson [monday, tuesday], 200), shop)"
  using get_user_orders_total [of shop 9] get_user_orders_total [of shop 1]
  by (simp add: store_invariant_def session_get_user_def shop_def ann_def pen_def
      monday_def tuesday_def)

section \<open>Adding a product to an order\<close>







section \<open>Updating a user\<close>

text \<open>
  Claim C8 says that an update with a valid body replaces the name and the email. A body
  that the schema accepts is still refused by the unique index on the email when another
  user has that email: nothing is replaced and the IntegrityError escapes.
\<close>

theorem update_user_counterexample:
  "session_get_user two_users 1 = Some ann \<and>
   user_schema_load (user_form ''anna'' ''9 new rd'' ''bob@example.org'') =
     Inr (''anna'', ''9 new rd'', ''bob@example.org'') \<and>
   update_user (=) two_users 1 (user_form ''anna'' ''9 new rd'' ''bob@example.org'') =
     Inl IntegrityError"
  by (simp add: update_user_def update_user_row_def session_get_user_def two_users_def
      empty_store_def ann_def bob_def)


text \<open>
  Claim C8 as amended: for a user that exists, a body the schema accepts and an email
  that collides with no other user's, the update answers 200 with the user's name and
  email replaced; in the store every row keeps its id and address, the rows with that id
  have the new name and email, every other user row and every other table is as
  before. For an id without a user row the answer is 404 and the store is as before.
\<close>

theorem update_user_spec:
  "(session_get_user s i = Some u \<longrightarrow> user_schema_load b = Inr (n, a, e) \<longrightarrow>
      \<not> list_ex (\<lambda>v. uid v \<noteq> i \<and> coll (email v) e) (users s) \<longrightarrow>
      (\<exists>s'. update_user coll s i b = Inr ((UserJson (Some (u\<lparr>name := n, email := e\<rparr>)), 200), s') \<and>
         length (users s') = length (users s) \<and>
         (\<forall>k < length (users s).
            uid (users s' ! k) = uid (users s ! k) \<and>
            address (users s' ! k) = address (users s ! k) \<and>
            (if uid (users s ! k) = i
             then name (users s' ! k) = n \<and> email (users s' ! k) = e
             else users s' ! k = users s ! k)) \<and>
         products s' = products s \<and> orders s' = orders s \<and>
         order_product s' = order_product s)) \<and>
   (session_get_user t j = None \<longrightarrow>
      update_user coll t j c = Inr ((Message InvalidUserId, 404), t))"
proof (intro conjI impI)
  assume u: "session_get_user s i = Some u"
    and b: "user_schema_load b = Inr (n, a, e)"
    and free: "\<not> list_ex (\<lambda>v. uid v \<noteq> i \<and> coll (email v) e) (users s)"
  let ?f = "\<lambda>v. if uid v = i then v\<lparr>name := n, email := e\<rparr> else v"
  let ?s' = "s\<lparr>users := map ?f (users s)\<rparr>"
  from u have i: "uid u = i" by (simp add: session_get_user_SomeD)
  have run: "update_user coll s i b = Inr ((UserJson (Some (u\<lparr>name := n, email := e\<rparr>)), 200), ?s')"
    using u b free i by (simp add: update_user_def update_user_row_def)
  show "\<exists>s'. update_user coll s i b = Inr ((UserJson (Some (u\<lparr>name := n, email := e\<rparr>)), 200), s') \<and>
         length (users s') = length (users s) \<and>
         (\<forall>k < length (users s).
            uid (users s' ! k) = uid (users s ! k) \<and>
            address (users s' ! k) = address (users s ! k) \<and>
            (if uid (users s ! k) = i
             then name (users s' ! k) = n \<and> email (users s' ! k) = e
             else users s' ! k = users s ! k)) \<and>
         products s' = products s \<and> orders s' = orders s \<and>
         order_product s' = order_product s"
    using run by (intro exI [of _ ?s']) simp
next
  assume "session_get_user t j = None"
  then show "update_user coll t j c = Inr ((Message InvalidUserId, 404), t)"
    by (simp add: update_user_def)
qed

theorem update_user_spec_witness:
  "update_user (=) two_users 1 (user_form ''anna'' ''9 new rd'' ''anna@example.org'') =
     Inr ((UserJson (Some (ann\<lparr>name := ''anna'', email := ''anna@example.org''\<rparr>)), 200),
          two_users\<lparr>users := [ann\<lparr>name := ''anna'', email := ''anna@example.org''\<rparr>, bob]\<rparr>) \<and>
   update_user (=) two_users 3 (user_form ''anna'' ''9 new rd'' ''anna@example.org'') =
     Inr ((Message InvalidUserId, 404), two_users)"
  using update_user_spec [of two_users 1 ann "user_form ''anna'' ''9 new rd'' ''anna@example.org''"
      "''anna''" "''9 new rd''" "''anna@example.org''" "(=)" two_users 3
      "user_form ''anna'' ''9 new rd'' ''anna@example.org''"]
  by (simp add: update_user_def update_user_row_def session_get_user_def two_users_def
      empty_store_def ann_def bob_def)


section \<open>Product prices\<close>

text \<open>
  Claim C9 says that no stored product has a negative price. Neither the schema nor the
  handlers test the price: a product posted with price -1 is stored with price -1.
\<close>

theorem negative_price_counterexample:
  "create_product exact exact empty_store (product_form ''pen'' (- 1)) =
     Inr ((ProductJson (Some \<lparr>pid = 1, product_name = ''pen'', price = - 1\<rparr>), 201),
          empty_store\<lparr>products := [\<lparr>pid = 1, product_name = ''pen'', price = - 1\<rparr>],
            next_product_id := 2\<rparr>) \<and>
   price \<lparr>pid = 1, product_name = ''pen'', price = - 1\<rparr> < 0"
  by (simp add: create_product_def insert_product_def Let_def empty_store_def exact_def)

text \<open>
  Claim C9 as amended: creating and updating a product keep the sign of a price that is
  not negative. The two roundings between the body and the column may change the
  number, but the float nearest to a number that is not negative is not negative. Under
  that property of the roundings, a body that loads with a price that is not negative
  gives a created product, appended to the products, whose stored price is not
  negative; an update gives the rows with that id a price that is not negative and
  leaves the other rows as they are. So when no stored price was negative, none is
  afterwards. Nothing is said about the stored number beyond its sign.
\<close>

theorem price_sign_preserved:
  assumes fl: "\<forall>x. 0 \<le> x \<longrightarrow> 0 \<le> to_float x"
    and col: "\<forall>x. 0 \<le> x \<longrightarrow> 0 \<le> to_column x"
  shows
  "(product_schema_load to_float b = Inr (n, pr) \<longrightarrow> pb_price b = Value x \<longrightarrow> 0 \<le> x \<longrightarrow>
      (\<exists>p s'. create_product to_float to_column s b = Inr ((ProductJson (Some p), 201), s') \<and>
         0 \<le> price p \<and> products s' = products s @ [p] \<and>
         (list_all (\<lambda>q. 0 \<le> price q) (products s) \<longrightarrow>
            list_all (\<lambda>q. 0 \<le> price q) (products s')))) \<and>
   (session_get_product t i = Some q \<longrightarrow> product_schema_load to_float c = Inr (m, pr') \<longrightarrow>
    pb_price c = Value y \<longrightarrow> 0 \<le> y \<longrightarrow>
      (\<exists>p' t'. update_product to_float to_column t i c = Inr ((ProductJson (Some p'), 200), t') \<and>
         0 \<le> price p' \<and> pid p' = i \<and>
         length (products t') = length (products t) \<and>
         (\<forall>k < length (products t).
            if pid (products t ! k) = i then 0 \<le> price (products t' ! k)
            else products t' ! k = products t ! k) \<and>
         (list_all (\<lambda>q. 0 \<le> price q) (products t) \<longrightarrow>
            list_all (\<lambda>q. 0 \<le> price q) (products t'))))"
proof (intro conjI impI)
  assume b: "product_schema_load to_float b = Inr (n, pr)"
    and x: "pb_price b = Value x" "0 \<le> x"
  from b x(1) have pr: "pr = to_float x"
    by (auto simp: product_schema_load_def split: field.splits if_splits)
  with x(2) fl col have nonneg: "0 \<le> to_column pr"
    by simp
  let ?p = "\<lparr>pid = next_product_id s, product_name = n, price = to_column pr\<rparr>"
  let ?s' = "s\<lparr>products := products s @ [?p], next_product_id := next_product_id s + 1\<rparr>"
  have "create_product to_float to_column s b = Inr ((ProductJson (Some ?p), 201), ?s')"
    using b by (simp add: create_product_def insert_product_def Let_def)
  then show "\<exists>p s'. create_product to_float to_column s b =
        Inr ((ProductJson (Some p), 201), s') \<and>
      0 \<le> price p \<and> products s' = products s @ [p] \<and>
      (list_all (\<lambda>q. 0 \<le> price q) (products s) \<longrightarrow>
         list_all (\<lambda>q. 0 \<le> price q) (products s'))"
    using nonneg by (intro exI [of _ ?p] exI [of _ ?s']) simp
next
  assume q: "session_get_product t i = Some q"
    and c: "product_schema_load to_float c = Inr (m, pr')"
    and y: "pb_price c = Value y" "0 \<le> y"
  from c y(1) have pr': "pr' = to_float y"
    by (auto simp: product_schema_load_def split: field.splits if_splits)
  with y(2) fl col have nonneg: "0 \<le> to_column pr'"
    by simp
  let ?f = "\<lambda>r. if pid r = i then r\<lparr>product_name := m, price := to_column pr'\<rparr> else r"
  let ?p' = "q\<lparr>product_name := m, price := to_column pr'\<rparr>"
  let ?t' = "t\<lparr>products := map ?f (products t)\<rparr>"
  from q have i: "pid q = i" by (simp add: session_get_product_SomeD)
  have run: "update_product to_float to_column t i c = Inr ((ProductJson (Some ?p'), 200), ?t')"
    using q c i by (simp add: update_product_def update_product_row_def)
  have keep: "list_all (\<lambda>r. 0 \<le> price r) (map ?f (products t))"
    if "list_all (\<lambda>r. 0 \<le> price r) (products t)"
    using that nonneg by (auto simp: list_all_iff)
  show "\<exists>p' t'. update_product to_float to_column t i c =
        Inr ((ProductJson (Some p'), 200), t') \<and>
      0 \<le> price p' \<and> pid p' = i \<and>
      length (products t') = length (products t) \<and>
      (\<forall>k < length (products t).
         if pid (products t ! k) = i then 0 \<le> price (products t' ! k)
         else products t' ! k = products t ! k) \<and>
      (list_all (\<lambda>q. 0 \<le> price q) (products t) \<longrightarrow>
         list_all (\<lambda>q. 0 \<le> price q) (products t'))"
    using run keep nonneg i by (intro exI [of _ ?p'] exI [of _ ?t']) simp
qed

theorem price_sign_preserved_witness:
  "create_product exact exact empty_store (product_form ''pen'' 2) =
     Inr ((ProductJson (Some pen), 201),
          empty_store\<lparr>products := [pen], next_product_id := 2\<rparr>) \<and>
   update_product exact exact (empty_store\<lparr>products := [pen], next_product_id := 2\<rparr>) 1
       (product_form ''pen'' 3) =
     Inr ((ProductJson (Some (pen\<lparr>price := 3\<rparr>)), 200),
          empty_store\<lparr>products := [pen\<lparr>price := 3\<rparr>], next_product_id := 2\<rparr>) \<and>
   0 \<le> price pen \<and> 0 \<le> price (pen\<lparr>price := 3\<rparr>)"
  using price_sign_preserved [where to_float = exact and to_column = exact
      and b = "product_form ''pen'' 2" and n = "''pen''" and pr = 2 and x = 2
      and s = empty_store
      and t = "empty_store\<lparr>products := [pen], next_product_id := 2\<rparr>" and i = 1 and q = pen
      and c = "product_form ''pen'' 3" and m = "''pen''" and pr' = 3 and y = 3]
  by (simp add: create_product_def insert_product_def Let_def update_product_def
      update_product_row_def session_get_product_def empty_store_def pen_def exact_def)

section \<open>Referential integrity of every reachable store\<close>

lemma invariant_insert_user:
  "store_invariant s \<Longrightarrow> insert_user coll s n a e = Inr (u, s') \<Longrightarrow> store_invariant s'"
  by (auto simp: insert_user_def store_invariant_def Let_def split: if_splits)

lemma invariant_update_user_row:
  assumes "store_invariant s" and "update_user_row coll s i n e = Inr s'"
  shows "store_invariant s'"
proof -
  let ?f = "\<lambda>v. if uid v = i then v\<lparr>name := n, email := e\<rparr> else v"
  have s': "s' = s\<lparr>users := map ?f (users s)\<rparr>"
    using assms(2) by (simp add: update_user_row_def split: if_splits)
  have "\<exists>u \<in> set (map ?f (users s)). uid u = k" if "\<exists>u \<in> set (users s). uid u = k" for k
  proof -
    from that obtain u where "u \<in> set (users s)" "uid u = k" by blast
    then have "?f u \<in> set (map ?f (users s))" "uid (?f u) = k" by auto
    then show ?thesis by blast
  qed
  then show ?thesis
    using assms(1) unfolding s' store_invariant_def by simp
qed

lemma invariant_delete_user_row:
  assumes "store_invariant s" and "delete_user_row s u = Inr s'"
  shows "store_invariant s'"
proof -
  have none: "\<not> list_ex (\<lambda>od. user_id od = uid u) (orders s)"
    and s': "s' = s\<lparr>users := filter (\<lambda>v. uid v \<noteq> uid u) (users s)\<rparr>"
    using assms(2) by (simp_all add: delete_user_row_def split: if_splits)
  have "\<exists>v \<in> set (filter (\<lambda>v. uid v \<noteq> uid u) (users s)). uid v = user_id od"
    if "od \<in> set (orders s)" for od
  proof -
    from that assms(1) obtain v where v: "v \<in> set (users s)" "uid v = user_id od"
      unfolding store_invariant_def by blast
    from that none have "user_id od \<noteq> uid u" by (auto simp: list_ex_iff)
    with v show ?thesis by auto
  qed
  then show ?thesis
    using assms(1) unfolding s' store_invariant_def by simp
qed

lemma invariant_insert_product:
  "store_invariant s \<Longrightarrow> insert_product to_column s n pr = (p, s') \<Longrightarrow> store_invariant s'"
  by (auto simp: insert_product_def store_invariant_def Let_def)

lemma invariant_update_product_row:
  assumes "store_invariant s"
  shows "store_invariant (update_product_row to_column s i n pr)"
proof -
  let ?f = "\<lambda>q. if pid q = i then q\<lparr>product_name := n, price := to_column pr\<rparr> else q"
  have "\<exists>p \<in> set (map ?f (products s)). pid p = k" if "\<exists>p \<in> set (products s). pid p = k" for k
  proof -
    from that obtain p where "p \<in> set (products s)" "pid p = k" by blast
    then have "?f p \<in> set (map ?f (products s))" "pid (?f p) = k" by auto
    then show ?thesis by blast
  qed
  then show ?thesis
    using assms unfolding update_product_row_def store_invariant_def by fastforce
qed

lemma invariant_delete_product_row:
  assumes "store_invariant s"
  shows "store_invariant (delete_product_row s p)"
proof -
  have "\<exists>q \<in> set (filter (\<lambda>q. pid q \<noteq> pid p) (products s)). pid q = b"
    if "(a, b) \<in> set (order_product s)" "b \<noteq> pid p" for a b
  proof -
    from that(1) assms obtain q where "q \<in> set (products s)" "pid q = b"
      unfolding store_invariant_def by blast
    with that(2) show ?thesis by auto
  qed
  then show ?thesis
    using assms unfolding delete_product_row_def store_invariant_def by auto
qed

lemma invariant_insert_order:
  assumes "store_invariant s" and "insert_order s u d = Inr (od, s')"
  shows "store_invariant s'"
proof -
  let ?new = "\<lparr>oid = next_order_id s, order_date = d, user_id = u\<rparr>"
  have ex: "\<exists>v \<in> set (users s). uid v = u"
    and s': "s' = s\<lparr>orders := orders s @ [?new], next_order_id := next_order_id s + 1\<rparr>"
    using assms(2) by (auto simp: insert_order_def Let_def list_ex_iff split: if_splits)
  have "\<exists>v \<in> set (users s). uid v = user_id x" if "x \<in> set (orders s @ [?new])" for x
    using that ex assms(1) unfolding store_invariant_def by auto
  moreover have "\<exists>x \<in> set (orders s @ [?new]). oid x = a"
    if "(a, b) \<in> set (order_product s)" for a b
    using that assms(1) unfolding store_invariant_def by fastforce
  ultimately show ?thesis
    using assms(1) unfolding s' store_invariant_def by auto
qed

lemma invariant_insert_order_product:
  assumes "store_invariant s" and "insert_order_product s a b = Inr s'"
  shows "store_invariant s'"
proof -
  have new: "(a, b) \<notin> set (order_product s)"
    and ex: "\<exists>od \<in> set (orders s). oid od = a" "\<exists>p \<in> set (products s). pid p = b"
    and s': "s' = s\<lparr>order_product := order_product s @ [(a, b)]\<rparr>"
    using assms(2) by (auto simp: insert_order_product_def list_ex_iff split: if_splits)
  show ?thesis
    using assms(1) new ex unfolding s' store_invariant_def by auto
qed

lemma invariant_after:
  assumes inv: "store_invariant s"
  shows "store_invariant (after coll to_float to_column s r)"
proof (cases r)
  case (POST_users b)
  then show ?thesis
    using inv
    by (auto simp: after_def create_user_def split: sum.splits prod.splits
        dest: invariant_insert_user)
next
  case (PUT_user i b)
  then show ?thesis
    using inv
    by (auto simp: after_def update_user_def split: sum.splits prod.splits option.splits
        dest: invariant_update_user_row)
next
  case (DELETE_user i)
  then show ?thesis
    using inv
    by (auto simp: after_def delete_user_def split: sum.splits prod.splits option.splits
        dest: invariant_delete_user_row)
next
  case (POST_products b)
  then show ?thesis
    using inv
    by (auto simp: after_def create_product_def split: sum.splits prod.splits
        dest: invariant_insert_product)
next
  case (PUT_product i b)
  then show ?thesis
    using inv
    by (auto simp: after_def update_product_def invariant_update_product_row
        split: sum.splits prod.splits option.splits)
next
  case (DELETE_product i)
  then show ?thesis
    using inv
    by (auto simp: after_def delete_product_def invariant_delete_product_row
        split: sum.splits prod.splits option.splits)
next
  case (POST_orders b)
  then show ?thesis
    using inv
    by (auto simp: after_def new_order_def split: sum.splits prod.splits
        dest: invariant_insert_order)
next
  case (PUT_add_product i j)
  then show ?thesis
    using inv
    by (auto simp: after_def add_product_def
        split: sum.splits prod.splits option.splits if_splits
        dest: invariant_insert_order_product)
next
  case (DELETE_remove_product i j)
  then show ?thesis
    using inv
    by (auto simp: after_def remove_product_def invariant_delete_product_row
        split: sum.splits prod.splits option.splits if_splits)
qed (use inv in \<open>simp_all add: after_def get_users_def get_user_def get_products_def
      get_product_def get_user_orders_def get_order_products_def split: option.splits\<close>)

lemma invariant_foldl:
  "store_invariant s \<Longrightarrow> store_invariant (foldl (after coll to_float to_column) s rs)"
  by (induction rs arbitrary: s) (simp_all add: invariant_after)

lemma invariant_empty: "store_invariant empty_store"
  by (simp add: store_invariant_def empty_store_def)


text \<open>
  Claim C2: in the store reached from the empty one by any sequence of requests to the
  fifteen routes, every order refers to a user of the store, every association row links
  an order and a product of the store, and no association row occurs twice.
\<close>

theorem reachable_invariant: "store_invariant (run coll to_float to_column rs)"
  unfolding run_def by (rule invariant_foldl [OF invariant_empty])

theorem reachable_invariant_witness:
  "run (=) exact exact session =
     \<lparr>users = [ann], products = [pen], orders = [monday], order_product = [(1, 1)],
      next_user_id = 2, next_product_id = 2, next_order_id = 2\<rparr> \<and>
   store_invariant (run (=) exact exact session)"
  using reachable_invariant [of "(=)" exact exact session]
  by (simp add: run_def session_def after_def create_user_def insert_user_def
      create_product_def insert_product_def new_order_def insert_order_def
      add_product_def insert_order_product_def delete_user_def delete_user_row_def
      session_get_user_def session_get_order_def session_get_product_def
      order_dot_product_def empty_store_def Let_def ann_def pen_def monday_def exact_def)

end
